theory Spec2Isabelle
  imports Main "HOL-Library.Word" "HOL-Library.Sublist"
begin

unbundle bit_operations_syntax

section \<open>Data model of package chain (eth2/chain/chain.go)\<close>

text \<open>
  \<^verbatim>\<open>Root\<close> is \<^verbatim>\<open>beacon.Root\<close>, a \<^verbatim>\<open>[32]byte\<close> array: the type holds exactly the
  byte lists of length 32, and Go's \<^verbatim>\<open>==\<close> on arrays is equality of the type.
  \<^verbatim>\<open>Slot\<close> and \<^verbatim>\<open>Epoch\<close> are \<^verbatim>\<open>uint64\<close>.
\<close>

type_synonym byte = "8 word"

typedef Root = "{bs :: byte list. length bs = 32}"
  morphisms root_bytes mk_Root
proof
  show "replicate 32 0 \<in> {bs :: byte list. length bs = 32}"
    by simp
qed

type_synonym Slot = "64 word"

type_synonym Epoch = "64 word"

text \<open>
  A Go \<^verbatim>\<open>error\<close> is modelled by the message that \<^verbatim>\<open>Error()\<close> (and so the verb
  \<^verbatim>\<open>%v\<close>) gives; the \<^verbatim>\<open>nil\<close> error is \<open>None\<close>.
\<close>

type_synonym error = string

text \<open>\<^verbatim>\<open>beacon.Checkpoint\<close>: the router reads only its field \<^verbatim>\<open>Root\<close>.\<close>

record Checkpoint =
  Epoch :: Epoch
  Root :: Root

text \<open>
  The interface \<^verbatim>\<open>ChainEntry\<close>, by its pure getters. \<^verbatim>\<open>EpochsContext\<close> and
  \<^verbatim>\<open>State\<close> load protocol state and are not read by any function of this file.
\<close>

record ChainEntry =
  Slot :: Slot
  BlockRoot :: Root
  ParentRoot :: Root
  IsEmpty :: bool
  StateRoot :: Root

text \<open>
  A Go result pair \<^verbatim>\<open>(ChainEntry, error)\<close>: both components can be \<^verbatim>\<open>nil\<close>
  (\<^verbatim>\<open>ChainIter.Entry\<close> documents \<^verbatim>\<open>entry=nil, err=nil\<close> for an absent entry).
\<close>

type_synonym result = "ChainEntry option \<times> error option"

text \<open>The interface \<^verbatim>\<open>ChainIter\<close>.\<close>

record ChainIter =
  Start :: Slot
  End :: Slot
  Entry :: "Slot \<Rightarrow> result"

text \<open>
  The two regions. The interfaces \<^verbatim>\<open>HotChain\<close> and \<^verbatim>\<open>ColdChain\<close> are declared in
  other files of the package, so their implementations are parameters: a region is the
  record of the methods that \<^verbatim>\<open>HotColdChain\<close> calls on it, with the signatures of the
  call sites (every lookup gives an entry and an error, \<^verbatim>\<open>IsAncestor\<close> gives
  \<^verbatim>\<open>(unknown, isAncestor)\<close>). \<^verbatim>\<open>Iter\<close> gives \<open>Inl err\<close> for a non-nil error and the
  iterator otherwise. The hot region has \<^verbatim>\<open>Finalized\<close> in addition.
\<close>

record ChainRegion =
  ByStateRoot :: "Root \<Rightarrow> result"
  ByBlockRoot :: "Root \<Rightarrow> result"
  Closest :: "Root \<Rightarrow> Slot \<Rightarrow> result"
  IsAncestor :: "Root \<Rightarrow> Root \<Rightarrow> bool \<times> bool"
  BySlot :: "Slot \<Rightarrow> result"
  Iter :: "error + ChainIter"

record HotChain = ChainRegion +
  Finalized :: Checkpoint

type_synonym ColdChain = ChainRegion

record BlockSlotKey =
  Slot :: Slot
  Root :: Root

record ('h, 'c, 'sp) HotColdChain =
  HotChain :: 'h
  ColdChain :: 'c
  Spec :: 'sp

text \<open>
  \<^verbatim>\<open>FullChainIter\<close> holds two iterators; \<^verbatim>\<open>HotColdChain.Iter\<close> builds it from the
  iterators that the two regions return without error.
\<close>

record FullChainIter =
  HotIter :: ChainIter
  ColdIter :: ChainIter

section \<open>BlockSlotKey.Bytes\<close>

text \<open>
  Go slices of the array \<^verbatim>\<open>out\<close>: \<open>slice out lo hi\<close> is \<^verbatim>\<open>out[lo:hi]\<close>, and writing
  through the slice changes \<^verbatim>\<open>out\<close> at \<open>lo..<hi\<close> (\<open>set_slice\<close>). The bounds are the
  constants 0, 32 and 40 on an array of 40 bytes, so no slice expression panics.
\<close>

definition slice :: "'a list \<Rightarrow> nat \<Rightarrow> nat \<Rightarrow> 'a list" where
  "slice xs lo hi = take (hi - lo) (drop lo xs)"

definition set_slice :: "'a list \<Rightarrow> nat \<Rightarrow> nat \<Rightarrow> 'a list \<Rightarrow> 'a list" where
  "set_slice xs lo hi ys = take lo xs @ ys @ drop hi xs"

text \<open>The builtin \<^verbatim>\<open>copy(dst, src)\<close> copies \<^verbatim>\<open>min(len(dst), len(src))\<close> elements.\<close>

definition copy :: "'a list \<Rightarrow> 'a list \<Rightarrow> 'a list" where
  "copy dst src = (let n = min (length dst) (length src) in take n src @ drop n dst)"

text \<open>
  \<^verbatim>\<open>binary.LittleEndian.PutUint64(b, v)\<close> stores \<^verbatim>\<open>byte(v)\<close>, \<^verbatim>\<open>byte(v >> 8)\<close>, ...,
  \<^verbatim>\<open>byte(v >> 56)\<close> at \<^verbatim>\<open>b[0]\<close>, ..., \<^verbatim>\<open>b[7]\<close>. It panics on a slice shorter than 8;
  \<^verbatim>\<open>Bytes\<close> calls it on \<^verbatim>\<open>out[32:40]\<close>, of length 8.
\<close>

definition PutUint64 :: "byte list \<Rightarrow> 64 word \<Rightarrow> byte list" where
  "PutUint64 b v =
     b[0 := ucast v,
       1 := ucast (drop_bit 8 v),
       2 := ucast (drop_bit 16 v),
       3 := ucast (drop_bit 24 v),
       4 := ucast (drop_bit 32 v),
       5 := ucast (drop_bit 40 v),
       6 := ucast (drop_bit 48 v),
       7 := ucast (drop_bit 56 v)]"

definition Bytes :: "BlockSlotKey \<Rightarrow> byte list" where
  "Bytes key =
     (let out = replicate 40 0;
          out = set_slice out 0 32 (copy (slice out 0 32) (root_bytes (BlockSlotKey.Root key)));
          out = set_slice out 32 40 (PutUint64 (slice out 32 40) (BlockSlotKey.Slot key))
      in out)"

section \<open>The router HotColdChain\<close>

text \<open>
  The router asks the hot region first and the cold region only inside the branch
  \<^verbatim>\<open>hotErr != nil\<close>. Each lookup returns, next to the Go result pair, the regions it
  queried, in the order of the calls.
\<close>

datatype region = Hot | Cold

type_synonym router = "(HotChain, ColdChain, unit) HotColdChain"

definition HotColdChain_ByStateRoot :: "router \<Rightarrow> Root \<Rightarrow> result \<times> region list" where
  "HotColdChain_ByStateRoot hc root =
     (case ByStateRoot (HotChain hc) root of
        (hotEntry, Some hotErr) \<Rightarrow>
          (case ByStateRoot (ColdChain hc) root of
             (coldEntry, Some coldErr) \<Rightarrow>
               ((None, Some (''could not find chain entry in hot or cold chain. '' @
                             ''Hot: '' @ hotErr @ '', Cold: '' @ coldErr)), [Hot, Cold])
           | (coldEntry, None) \<Rightarrow> ((coldEntry, None), [Hot, Cold]))
      | (hotEntry, None) \<Rightarrow> ((hotEntry, None), [Hot]))"

definition HotColdChain_ByBlockRoot :: "router \<Rightarrow> Root \<Rightarrow> result \<times> region list" where
  "HotColdChain_ByBlockRoot hc root =
     (case ByBlockRoot (HotChain hc) root of
        (hotEntry, Some hotErr) \<Rightarrow>
          (case ByBlockRoot (ColdChain hc) root of
             (coldEntry, Some coldErr) \<Rightarrow>
               ((None, Some (''could not find chain entry in hot or cold chain. '' @
                             ''Hot: '' @ hotErr @ '', Cold: '' @ coldErr)), [Hot, Cold])
           | (coldEntry, None) \<Rightarrow> ((coldEntry, None), [Hot, Cold]))
      | (hotEntry, None) \<Rightarrow> ((hotEntry, None), [Hot]))"

definition HotColdChain_Closest :: "router \<Rightarrow> Root \<Rightarrow> Slot \<Rightarrow> result \<times> region list" where
  "HotColdChain_Closest hc fromBlockRoot toSlot =
     (case Closest (HotChain hc) fromBlockRoot toSlot of
        (hotEntry, Some hotErr) \<Rightarrow>
          (case Closest (ColdChain hc) fromBlockRoot toSlot of
             (coldEntry, Some coldErr) \<Rightarrow>
               ((None, Some (''could not find chain entry in hot or cold chain. '' @
                             ''Hot: '' @ hotErr @ '', Cold: '' @ coldErr)), [Hot, Cold])
           | (coldEntry, None) \<Rightarrow> ((coldEntry, None), [Hot, Cold]))
      | (hotEntry, None) \<Rightarrow> ((hotEntry, None), [Hot]))"

definition HotColdChain_BySlot :: "router \<Rightarrow> Slot \<Rightarrow> result \<times> region list" where
  "HotColdChain_BySlot hc slot =
     (case BySlot (HotChain hc) slot of
        (hotEntry, Some hotErr) \<Rightarrow>
          (case BySlot (ColdChain hc) slot of
             (coldEntry, Some coldErr) \<Rightarrow>
               ((None, Some (''could not find chain entry in hot or cold chain. '' @
                             ''Hot: '' @ hotErr @ '', Cold: '' @ coldErr)), [Hot, Cold])
           | (coldEntry, None) \<Rightarrow> ((coldEntry, None), [Hot, Cold]))
      | (hotEntry, None) \<Rightarrow> ((hotEntry, None), [Hot]))"

text \<open>
  \<^verbatim>\<open>HotColdChain.Towards\<close> has an empty body: no call of \<^verbatim>\<open>Closest\<close>, no comparison
  with \<^verbatim>\<open>toSlot\<close>, no \<^verbatim>\<open>return\<close>. \<open>None\<close> stands for "no result pair is
  produced"; \<open>Some (entry, err)\<close> would be a returned pair.
\<close>

definition HotColdChain_Towards :: "router \<Rightarrow> 'ctx \<Rightarrow> Root \<Rightarrow> Slot \<Rightarrow> result option" where
  "HotColdChain_Towards hc ctx fromBlockRoot toSlot = None"

definition HotColdChain_IsAncestor :: "router \<Rightarrow> Root \<Rightarrow> Root \<Rightarrow> bool \<times> bool" where
  "HotColdChain_IsAncestor hc root ofRoot =
     (if root = ofRoot then (False, False)
      else if snd (ByBlockRoot (ColdChain hc) root) = None
        then IsAncestor (ColdChain hc) root ofRoot
      else if snd (ByBlockRoot (ColdChain hc) ofRoot) = None
        then (let fin = Finalized (HotChain hc)
              in IsAncestor (HotChain hc) root (Checkpoint.Root fin))
      else IsAncestor (HotChain hc) root ofRoot)"

definition HotColdChain_Iter :: "router \<Rightarrow> error + FullChainIter" where
  "HotColdChain_Iter hc =
     (case Iter (HotChain hc) of
        Inl err \<Rightarrow> Inl (''cannot iter hot part: '' @ err)
      | Inr hotIt \<Rightarrow>
          (case Iter (ColdChain hc) of
             Inl err \<Rightarrow> Inl (''cannot iter cold part: '' @ err)
           | Inr coldIt \<Rightarrow> Inr \<lparr>HotIter = hotIt, ColdIter = coldIt\<rparr>))"

section \<open>FullChainIter\<close>

definition FullChainIter_Start :: "FullChainIter \<Rightarrow> Slot" where
  "FullChainIter_Start fi = Start (ColdIter fi)"

definition FullChainIter_End :: "FullChainIter \<Rightarrow> Slot" where
  "FullChainIter_End fi = End (HotIter fi)"

definition FullChainIter_Entry :: "FullChainIter \<Rightarrow> Slot \<Rightarrow> result" where
  "FullChainIter_Entry fi slot =
     (if slot < End (ColdIter fi) then Entry (ColdIter fi) slot
      else Entry (HotIter fi) slot)"

section \<open>NewHotColdChain and its finalization sink\<close>

text \<open>
  \<^verbatim>\<open>HotEntry\<close> is a struct of another file of the package; the constructor reads its
  field \<^verbatim>\<open>slot\<close> only.
\<close>

record HotEntry =
  slot :: Slot
  blockRoot :: Root

text \<open>
  The function literal wrapped in \<^verbatim>\<open>BlockSinkFn\<close>. It captures the pointer
  \<^verbatim>\<open>coldCh\<close>; the object behind it is the state \<open>coldCh\<close> that the sink takes and
  returns. \<^verbatim>\<open>OnFinalizedEntry\<close> is a method of the cold chain, declared in another
  file of the package, and a parameter here. The returned error is \<open>None\<close> for
  \<^verbatim>\<open>nil\<close>.
\<close>

definition NewHotColdChain_sink ::
  "('e \<Rightarrow> 'c \<Rightarrow> error option \<times> 'c) \<Rightarrow> 'e \<Rightarrow> bool \<Rightarrow> 'c \<Rightarrow> error option \<times> 'c" where
  "NewHotColdChain_sink OnFinalizedEntry entry canonical coldCh =
     (if canonical then OnFinalizedEntry entry coldCh
      else (None, coldCh))"

text \<open>
  The constructor, with \<^verbatim>\<open>NewFinalizedChain\<close> and \<^verbatim>\<open>NewUnfinalizedChain\<close> (other
  files of the package) as parameters. The result is the Go pair
  \<^verbatim>\<open>(*HotColdChain, error)\<close>.
\<close>

definition NewHotColdChain ::
  "(Slot \<Rightarrow> 'sp \<Rightarrow> 'db \<Rightarrow> 'c) \<Rightarrow>
   ('m HotEntry_scheme \<Rightarrow> ('e \<Rightarrow> bool \<Rightarrow> 'c \<Rightarrow> error option \<times> 'c) \<Rightarrow> 'sp \<Rightarrow> 'h \<times> error option) \<Rightarrow>
   ('e \<Rightarrow> 'c \<Rightarrow> error option \<times> 'c) \<Rightarrow>
   'm HotEntry_scheme \<Rightarrow> 'sp \<Rightarrow> 'db \<Rightarrow> ('h, 'c, 'sp) HotColdChain option \<times> error option" where
  "NewHotColdChain NewFinalizedChain NewUnfinalizedChain OnFinalizedEntry anchor spec stateDB =
     (let coldCh = NewFinalizedChain (slot anchor) spec stateDB
      in case NewUnfinalizedChain anchor (NewHotColdChain_sink OnFinalizedEntry) spec of
           (hotCh, Some err) \<Rightarrow> (None, Some err)
         | (hotCh, None) \<Rightarrow>
             (Some \<lparr>HotChain = hotCh, ColdChain = coldCh, Spec = spec\<rparr>, None))"

section \<open>The lookup contract of the router, in the specification's words\<close>

text \<open>
  Section 4.2 of the specification: query the hot chain first; on a miss, query the
  cold chain; if both miss, fail with a combined error exposing both underlying
  failures. \<open>spec_hot_then_cold hot cold r\<close> says that the router's result \<open>r\<close> is the
  one this sentence asks for, given the results \<open>hot\<close> and \<open>cold\<close> of the two regions:
  an error exposes a failure when its message contains the failure's message.
\<close>

definition spec_hot_then_cold :: "result \<Rightarrow> result \<Rightarrow> result \<Rightarrow> bool" where
  "spec_hot_then_cold hot cold r =
     (case snd hot of
        None \<Rightarrow> r = (fst hot, None)
      | Some hotErr \<Rightarrow>
          (case snd cold of
             None \<Rightarrow> r = (fst cold, None)
           | Some coldErr \<Rightarrow>
               fst r = None \<and>
               (case snd r of
                  None \<Rightarrow> False
                | Some msg \<Rightarrow> sublist hotErr msg \<and> sublist coldErr msg)))"

text \<open>
  The hot region has priority: when the hot lookup succeeds the router returns the hot
  entry, having queried the hot region only; and whenever the cold region was queried,
  the hot lookup had failed.
\<close>

definition spec_hot_priority :: "result \<Rightarrow> result \<times> region list \<Rightarrow> bool" where
  "spec_hot_priority hot r =
     ((snd hot = None \<longrightarrow> r = ((fst hot, None), [Hot])) \<and>
      (Cold \<in> set (snd r) \<longrightarrow> snd hot \<noteq> None))"

section \<open>Ancestry along the parent links\<close>



section \<open>Example regions\<close>

text \<open>
  Concrete inputs for the instances below: list-backed implementations of the two
  interfaces, in the scenario of the specification's section 8 (anchor at slot 100,
  block A at slot 101, no block at slot 102, block B at slot 103 on top of A), with two
  finalized blocks at slots 98 and 99 in the cold region. \<open>root_of_byte b\<close> is the root
  whose 32 bytes are all \<open>b\<close>. \<open>mem_IsAncestor\<close> follows the doc comment of
  \<^verbatim>\<open>Chain.IsAncestor\<close>: true if \<^verbatim>\<open>root\<close> builds, maybe indirectly, on \<^verbatim>\<open>ofRoot\<close>;
  unknown if the region does not hold both roots.
\<close>

definition root_of_byte :: "byte \<Rightarrow> Root" where
  "root_of_byte b = mk_Root (replicate 32 b)"

definition mk_entry :: "Slot \<Rightarrow> byte \<Rightarrow> byte \<Rightarrow> bool \<Rightarrow> ChainEntry" where
  "mk_entry s r p emp =
     \<lparr>ChainEntry.Slot = s, BlockRoot = root_of_byte r, ParentRoot = root_of_byte p,
      IsEmpty = emp, StateRoot = root_of_byte (ucast s + 100)\<rparr>"

definition mem_ByStateRoot :: "string \<Rightarrow> ChainEntry list \<Rightarrow> Root \<Rightarrow> result" where
  "mem_ByStateRoot tag es root =
     (case find (\<lambda>e. StateRoot e = root) es of
        Some e \<Rightarrow> (Some e, None)
      | None \<Rightarrow> (None, Some (tag @ '': unknown state root'')))"

definition mem_ByBlockRoot :: "string \<Rightarrow> ChainEntry list \<Rightarrow> Root \<Rightarrow> result" where
  "mem_ByBlockRoot tag es root =
     (case find (\<lambda>e. BlockRoot e = root) es of
        Some e \<Rightarrow> (Some e, None)
      | None \<Rightarrow> (None, Some (tag @ '': unknown block root'')))"

definition mem_Closest :: "string \<Rightarrow> ChainEntry list \<Rightarrow> Root \<Rightarrow> Slot \<Rightarrow> result" where
  "mem_Closest tag es fromBlockRoot toSlot =
     (case find (\<lambda>e. BlockRoot e = fromBlockRoot \<and> ChainEntry.Slot e \<le> toSlot) (rev es) of
        Some e \<Rightarrow> (Some e, None)
      | None \<Rightarrow> (None, Some (tag @ '': no entry from this block root'')))"

definition mem_BySlot :: "string \<Rightarrow> ChainEntry list \<Rightarrow> Slot \<Rightarrow> result" where
  "mem_BySlot tag es s =
     (case find (\<lambda>e. ChainEntry.Slot e = s) es of
        Some e \<Rightarrow> (Some e, None)
      | None \<Rightarrow> (None, Some (tag @ '': no entry at this slot'')))"

fun builds_on :: "ChainEntry list \<Rightarrow> nat \<Rightarrow> Root \<Rightarrow> Root \<Rightarrow> bool" where
  "builds_on es 0 root ofRoot = False"
| "builds_on es (Suc n) root ofRoot =
     (case find (\<lambda>e. BlockRoot e = root) es of
        None \<Rightarrow> False
      | Some e \<Rightarrow> ParentRoot e = ofRoot \<or> builds_on es n (ParentRoot e) ofRoot)"

definition mem_IsAncestor :: "ChainEntry list \<Rightarrow> Root \<Rightarrow> Root \<Rightarrow> bool \<times> bool" where
  "mem_IsAncestor es root ofRoot =
     (if find (\<lambda>e. BlockRoot e = root) es = None \<or> find (\<lambda>e. BlockRoot e = ofRoot) es = None
      then (True, False)
      else (False, builds_on es (length es) root ofRoot))"

definition mem_Iter :: "string \<Rightarrow> Slot \<Rightarrow> ChainEntry list \<Rightarrow> ChainIter" where
  "mem_Iter tag first es =
     \<lparr>Start = first,
      End = first + of_nat (length es),
      Entry = (\<lambda>s. if s < first \<or> first + of_nat (length es) \<le> s
                    then (None, Some (tag @ '': slot out of range''))
                    else (find (\<lambda>e. ChainEntry.Slot e = s) es, None))\<rparr>"

definition mem_Chain :: "string \<Rightarrow> Slot \<Rightarrow> ChainEntry list \<Rightarrow> ColdChain" where
  "mem_Chain tag first es =
     \<lparr>ByStateRoot = mem_ByStateRoot tag es,
      ByBlockRoot = mem_ByBlockRoot tag es,
      Closest = mem_Closest tag es,
      IsAncestor = mem_IsAncestor es,
      BySlot = mem_BySlot tag es,
      Iter = Inr (mem_Iter tag first es)\<rparr>"

definition mem_HotChain :: "Slot \<Rightarrow> ChainEntry list \<Rightarrow> Checkpoint \<Rightarrow> HotChain" where
  "mem_HotChain first es fin =
     \<lparr>ByStateRoot = mem_ByStateRoot ''hot'' es,
      ByBlockRoot = mem_ByBlockRoot ''hot'' es,
      Closest = mem_Closest ''hot'' es,
      IsAncestor = mem_IsAncestor es,
      BySlot = mem_BySlot ''hot'' es,
      Iter = Inr (mem_Iter ''hot'' first es),
      Finalized = fin\<rparr>"

definition cold_entries :: "ChainEntry list" where
  "cold_entries = [mk_entry 98 98 97 False, mk_entry 99 99 98 False]"

definition hot_entries :: "ChainEntry list" where
  "hot_entries =
     [mk_entry 100 100 99 False, mk_entry 101 101 100 False,
      mk_entry 102 101 101 True, mk_entry 103 103 101 False]"

definition example_chain :: router where
  "example_chain =
     \<lparr>HotChain = mem_HotChain 100 hot_entries \<lparr>Epoch = 3, Root = root_of_byte 100\<rparr>,
      ColdChain = mem_Chain ''cold'' 98 cold_entries,
      Spec = ()\<rparr>"

text \<open>
  The state just after the finalization of block A, while A is still held by both
  regions: the cold region has ingested slots 100 and 101, the hot region has not
  pruned yet.
\<close>

definition overlap_chain :: router where
  "overlap_chain =
     \<lparr>HotChain = mem_HotChain 100 hot_entries \<lparr>Epoch = 3, Root = root_of_byte 101\<rparr>,
      ColdChain = mem_Chain ''cold'' 98
        (cold_entries @ [mk_entry 100 100 99 False, mk_entry 101 101 100 False]),
      Spec = ()\<rparr>"

text \<open>A chain started at genesis: the cold region is still empty, both regions begin at slot 0.\<close>

definition genesis_chain :: router where
  "genesis_chain =
     \<lparr>HotChain = mem_HotChain 0 [mk_entry 0 1 0 False] \<lparr>Epoch = 0, Root = root_of_byte 1\<rparr>,
      ColdChain = mem_Chain ''cold'' 0 [],
      Spec = ()\<rparr>"

text \<open>
  A cold chain that accepts entries in increasing slot order, and a hot chain
  constructor that keeps the anchor and the sink it is given.
\<close>

definition mem_OnFinalizedEntry :: "HotEntry \<Rightarrow> HotEntry list \<Rightarrow> error option \<times> HotEntry list" where
  "mem_OnFinalizedEntry entry coldCh =
     (if coldCh \<noteq> [] \<and> slot entry \<le> slot (last coldCh)
      then (Some ''cold: entry out of order'', coldCh)
      else (None, coldCh @ [entry]))"

definition mem_NewFinalizedChain :: "Slot \<Rightarrow> unit \<Rightarrow> unit \<Rightarrow> HotEntry list" where
  "mem_NewFinalizedChain s spec stateDB = []"

definition mem_NewUnfinalizedChain :: "'a \<Rightarrow> 's \<Rightarrow> 'sp \<Rightarrow> ('a \<times> 's) \<times> error option" where
  "mem_NewUnfinalizedChain anchor sink spec = ((anchor, sink), None)"

section \<open>Facts about the byte encoding\<close>

lemma length_root_bytes: "length (root_bytes r) = 32"
  using root_bytes [of r] by simp

lemma PutUint64_8:
  assumes "length b = 8"
  shows "PutUint64 b v =
     [ucast v, ucast (drop_bit 8 v), ucast (drop_bit 16 v), ucast (drop_bit 24 v),
      ucast (drop_bit 32 v), ucast (drop_bit 40 v), ucast (drop_bit 48 v), ucast (drop_bit 56 v)]"
proof -
  from assms obtain b0 b1 b2 b3 b4 b5 b6 b7 where "b = [b0, b1, b2, b3, b4, b5, b6, b7]"
    by (auto simp add: length_Suc_conv eval_nat_numeral)
  then show ?thesis
    by (simp add: PutUint64_def)
qed

lemma Bytes_eq:
  "Bytes key = root_bytes (BlockSlotKey.Root key) @
     [ucast (BlockSlotKey.Slot key), ucast (drop_bit 8 (BlockSlotKey.Slot key)),
      ucast (drop_bit 16 (BlockSlotKey.Slot key)), ucast (drop_bit 24 (BlockSlotKey.Slot key)),
      ucast (drop_bit 32 (BlockSlotKey.Slot key)), ucast (drop_bit 40 (BlockSlotKey.Slot key)),
      ucast (drop_bit 48 (BlockSlotKey.Slot key)), ucast (drop_bit 56 (BlockSlotKey.Slot key))]"
  by (simp add: Bytes_def Let_def set_slice_def slice_def copy_def length_root_bytes PutUint64_8)

lemma Bytes_nth_slot:
  assumes "i < 8"
  shows "Bytes key ! (32 + i) = ucast (drop_bit (8 * i) (BlockSlotKey.Slot key))"
proof -
  from assms have "i \<in> {0, 1, 2, 3, 4, 5, 6, 7}" by auto
  then show ?thesis
    by (auto simp add: Bytes_eq nth_append length_root_bytes)
qed

lemma unat_le_byte:
  "unat (ucast (drop_bit (8 * i) (v :: 64 word)) :: byte) = unat v div 256 ^ i mod 256"
proof -
  have "unat (ucast (drop_bit (8 * i) v) :: byte) = unat (drop_bit (8 * i) v) mod 2 ^ 8"
    by (simp add: unsigned_ucast_eq take_bit_eq_mod)
  also have "unat (drop_bit (8 * i) v) = unat v div 2 ^ (8 * i)"
    by (simp only: unat_drop_bit_eq) (simp only: drop_bit_eq_div)
  also have "(2::nat) ^ (8 * i) = 256 ^ i"
    by (simp add: power_mult)
  finally show ?thesis by simp
qed

lemma le_bytes_inj:
  assumes "\<And>i. i < 8 \<Longrightarrow>
    (ucast (drop_bit (8 * i) (a :: 64 word)) :: byte) = ucast (drop_bit (8 * i) b)"
  shows "a = b"
proof (rule bit_word_eqI)
  fix n :: nat
  assume "n < LENGTH(64)"
  then have i: "n div 8 < 8" and j: "n mod 8 < 8" by simp_all
  have n: "8 * (n div 8) + n mod 8 = n" by simp
  have "bit (ucast (drop_bit (8 * (n div 8)) a) :: byte) (n mod 8)
      = bit (ucast (drop_bit (8 * (n div 8)) b) :: byte) (n mod 8)"
    using assms [OF i] by simp
  then have "bit a (8 * (n div 8) + n mod 8) = bit b (8 * (n div 8) + n mod 8)"
    using j by (simp add: bit_ucast_iff bit_drop_bit_eq)
  then show "bit a n = bit b n"
    by (simp only: n)
qed

lemma Bytes_eq_imp_eq:
  assumes eq: "Bytes k1 = Bytes k2"
  shows "k1 = k2"
proof -
  have "root_bytes (BlockSlotKey.Root k1) = root_bytes (BlockSlotKey.Root k2)"
    using eq by (simp add: Bytes_eq length_root_bytes)
  then have r: "BlockSlotKey.Root k1 = BlockSlotKey.Root k2"
    by (simp add: root_bytes_inject)
  have "BlockSlotKey.Slot k1 = BlockSlotKey.Slot k2"
  proof (rule le_bytes_inj)
    fix i :: nat
    assume "i < 8"
    then have "Bytes k1 ! (32 + i) = ucast (drop_bit (8 * i) (BlockSlotKey.Slot k1))"
      and "Bytes k2 ! (32 + i) = ucast (drop_bit (8 * i) (BlockSlotKey.Slot k2))"
      by (simp_all add: Bytes_nth_slot)
    with eq show "(ucast (drop_bit (8 * i) (BlockSlotKey.Slot k1)) :: byte)
        = ucast (drop_bit (8 * i) (BlockSlotKey.Slot k2))"
      by simp
  qed
  with r show ?thesis by simp
qed

section \<open>Facts about the example regions\<close>

lemma root_bytes_root_of_byte: "root_bytes (root_of_byte b) = replicate 32 b"
  by (simp add: root_of_byte_def mk_Root_inverse)

lemma root_of_byte_eq: "root_of_byte a = root_of_byte b \<longleftrightarrow> a = b"
proof
  assume "root_of_byte a = root_of_byte b"
  then have "root_bytes (root_of_byte a) = root_bytes (root_of_byte b)" by simp
  then show "a = b" by (simp add: root_bytes_root_of_byte)
qed simp

lemmas mem_defs =
  mem_HotChain_def mem_Chain_def mem_ByBlockRoot_def mem_ByStateRoot_def mem_BySlot_def
  mem_Closest_def mem_IsAncestor_def mem_Iter_def hot_entries_def cold_entries_def mk_entry_def
  root_of_byte_eq

section \<open>BlockSlotKey.Bytes\<close>

text \<open>
  C7: for every key, \<open>Bytes\<close> returns exactly 40 bytes; the first 32 are the root, and
  the last 8 are the slot as a little-endian 64-bit integer: byte \<open>32 + i\<close> is the
  \<open>i\<close>-th base-256 digit of the slot, least significant first.
\<close>

theorem Bytes_layout:
  "length (Bytes key) = 40 \<and>
   take 32 (Bytes key) = root_bytes (BlockSlotKey.Root key) \<and>
   (\<forall>i<8. unat (Bytes key ! (32 + i)) = unat (BlockSlotKey.Slot key) div 256 ^ i mod 256)"
  by (simp add: Bytes_nth_slot unat_le_byte) (simp add: Bytes_eq length_root_bytes)

theorem Bytes_layout_witness:
  "(1::nat) < 8 \<and>
   length (Bytes \<lparr>Slot = 0x0102030405060708, Root = root_of_byte 0xAB\<rparr>) = 40 \<and>
   take 32 (Bytes \<lparr>Slot = 0x0102030405060708, Root = root_of_byte 0xAB\<rparr>) = replicate 32 0xAB \<and>
   unat (Bytes \<lparr>Slot = 0x0102030405060708, Root = root_of_byte 0xAB\<rparr> ! (32 + 1)) = 7"
proof -
  let ?k = "\<lparr>Slot = 0x0102030405060708, Root = root_of_byte 0xAB\<rparr>"
  have i: "(1::nat) < 8" by simp
  have len: "length (Bytes ?k) = 40"
    and root: "take 32 (Bytes ?k) = root_bytes (BlockSlotKey.Root ?k)"
    and slot: "\<forall>i<8. unat (Bytes ?k ! (32 + i)) = unat (BlockSlotKey.Slot ?k) div 256 ^ i mod 256"
    using Bytes_layout [of ?k] by blast+
  from slot i have "unat (Bytes ?k ! (32 + 1)) = unat (BlockSlotKey.Slot ?k) div 256 ^ 1 mod 256"
    by blast
  then have "unat (Bytes ?k ! (32 + 1)) = 7"
    by simp
  with i len root show ?thesis
    by (simp add: root_bytes_root_of_byte)
qed

text \<open>
  C10: \<open>Bytes\<close> is injective: two keys that differ in the slot or in the root have
  different encodings.
\<close>

theorem Bytes_injective:
  "BlockSlotKey.Slot k1 \<noteq> BlockSlotKey.Slot k2 \<or> BlockSlotKey.Root k1 \<noteq> BlockSlotKey.Root k2
     \<Longrightarrow> Bytes k1 \<noteq> Bytes k2"
  using Bytes_eq_imp_eq [of k1 k2] by auto

theorem Bytes_injective_witness:
  "(256 :: Slot) \<noteq> 1 \<and>
   Bytes \<lparr>Slot = 256, Root = root_of_byte 5\<rparr> \<noteq> Bytes \<lparr>Slot = 1, Root = root_of_byte 5\<rparr>"
  using Bytes_injective [of "\<lparr>Slot = 256, Root = root_of_byte 5\<rparr>" "\<lparr>Slot = 1, Root = root_of_byte 5\<rparr>"]
  by simp

section \<open>FullChainIter\<close>

text \<open>
  C4: \<open>Start\<close> is the cold iterator's \<open>Start\<close>, \<open>End\<close> is the hot iterator's
  \<open>End\<close>, and \<open>Entry s\<close> is the cold iterator's entry when \<open>s\<close> is below the cold
  iterator's \<open>End\<close> and the hot iterator's entry otherwise.
\<close>

theorem FullChainIter_delegation:
  "FullChainIter_Start fi = Start (ColdIter fi) \<and>
   FullChainIter_End fi = End (HotIter fi) \<and>
   (\<forall>s. (s < End (ColdIter fi) \<longrightarrow> FullChainIter_Entry fi s = Entry (ColdIter fi) s) \<and>
        (\<not> s < End (ColdIter fi) \<longrightarrow> FullChainIter_Entry fi s = Entry (HotIter fi) s))"
  by (simp add: FullChainIter_Start_def FullChainIter_End_def FullChainIter_Entry_def)

theorem FullChainIter_delegation_witness:
  "(99 :: Slot) < End (mem_Iter ''cold'' 98 cold_entries) \<and>
   \<not> (101 :: Slot) < End (mem_Iter ''cold'' 98 cold_entries) \<and>
   FullChainIter_Start
     \<lparr>HotIter = mem_Iter ''hot'' 100 hot_entries, ColdIter = mem_Iter ''cold'' 98 cold_entries\<rparr> = 98 \<and>
   FullChainIter_End
     \<lparr>HotIter = mem_Iter ''hot'' 100 hot_entries, ColdIter = mem_Iter ''cold'' 98 cold_entries\<rparr> = 104 \<and>
   FullChainIter_Entry
     \<lparr>HotIter = mem_Iter ''hot'' 100 hot_entries, ColdIter = mem_Iter ''cold'' 98 cold_entries\<rparr> 99
     = (Some (mk_entry 99 99 98 False), None) \<and>
   FullChainIter_Entry
     \<lparr>HotIter = mem_Iter ''hot'' 100 hot_entries, ColdIter = mem_Iter ''cold'' 98 cold_entries\<rparr> 101
     = (Some (mk_entry 101 101 100 False), None)"
proof -
  let ?fi = "\<lparr>HotIter = mem_Iter ''hot'' 100 hot_entries, ColdIter = mem_Iter ''cold'' 98 cold_entries\<rparr>"
  have c: "(99 :: Slot) < End (ColdIter ?fi)" and h: "\<not> (101 :: Slot) < End (ColdIter ?fi)"
    by (simp_all add: mem_defs)
  from FullChainIter_delegation [of ?fi] c h
  have "FullChainIter_Start ?fi = Start (ColdIter ?fi)"
    and "FullChainIter_End ?fi = End (HotIter ?fi)"
    and "FullChainIter_Entry ?fi 99 = Entry (ColdIter ?fi) 99"
    and "FullChainIter_Entry ?fi 101 = Entry (HotIter ?fi) 101"
    by blast+
  with c h show ?thesis
    by (simp add: mem_defs)
qed

text \<open>
  C3, as the code has it: \<open>FullChainIter\<close> does not compare the cold iterator's
  \<open>End\<close> with the hot iterator's \<open>Start\<close>; where the two are equal and the boundary
  is not slot 0, \<open>Entry (boundary - 1)\<close> is the cold iterator's entry at that slot (its
  last one) and \<open>Entry boundary\<close> is the hot iterator's entry at its \<open>Start\<close> (its
  first one).
\<close>

theorem FullChainIter_boundary:
  assumes "End (ColdIter fi) = Start (HotIter fi)"
    and "End (ColdIter fi) \<noteq> 0"
  shows "FullChainIter_Entry fi (End (ColdIter fi) - 1) = Entry (ColdIter fi) (End (ColdIter fi) - 1) \<and>
         FullChainIter_Entry fi (End (ColdIter fi)) = Entry (HotIter fi) (Start (HotIter fi))"
proof -
  have "End (ColdIter fi) - 1 < End (ColdIter fi)"
    using assms(2) by (metis less_eq_dec_iff diff_zero sub_wrap)
  with assms(1) show ?thesis
    by (simp add: FullChainIter_Entry_def)
qed

theorem FullChainIter_boundary_witness:
  "HotColdChain_Iter example_chain =
     Inr \<lparr>HotIter = mem_Iter ''hot'' 100 hot_entries, ColdIter = mem_Iter ''cold'' 98 cold_entries\<rparr> \<and>
   End (mem_Iter ''cold'' 98 cold_entries) = Start (mem_Iter ''hot'' 100 hot_entries) \<and>
   End (mem_Iter ''cold'' 98 cold_entries) = 100 \<and>
   FullChainIter_Entry
     \<lparr>HotIter = mem_Iter ''hot'' 100 hot_entries, ColdIter = mem_Iter ''cold'' 98 cold_entries\<rparr> 99
     = (Some (mk_entry 99 99 98 False), None) \<and>
   FullChainIter_Entry
     \<lparr>HotIter = mem_Iter ''hot'' 100 hot_entries, ColdIter = mem_Iter ''cold'' 98 cold_entries\<rparr> 100
     = (Some (mk_entry 100 100 99 False), None)"
proof -
  let ?fi = "\<lparr>HotIter = mem_Iter ''hot'' 100 hot_entries, ColdIter = mem_Iter ''cold'' 98 cold_entries\<rparr>"
  have it: "HotColdChain_Iter example_chain = Inr ?fi"
    by (simp add: HotColdChain_Iter_def example_chain_def mem_HotChain_def mem_Chain_def)
  have b: "End (ColdIter ?fi) = Start (HotIter ?fi)" and n: "End (ColdIter ?fi) \<noteq> 0"
    and e: "End (ColdIter ?fi) = 100"
    by (simp_all add: mem_defs)
  from FullChainIter_boundary [OF b n]
  have "FullChainIter_Entry ?fi (100 - 1) = Entry (ColdIter ?fi) (100 - 1)"
    and "FullChainIter_Entry ?fi 100 = Entry (HotIter ?fi) (Start (HotIter ?fi))"
    by (simp_all only: e)
  with it b e show ?thesis
    by (simp add: mem_defs)
qed

text \<open>
  The claim as the specification words it fails on two inputs. With block A held by both
  regions, \<open>Iter\<close> composes a cold iterator that ends at slot 102 with a hot iterator
  that starts at slot 100. In a chain started at genesis the boundary is slot 0: the
  slot \<open>0 - 1\<close> wraps to \<open>2 ^ 64 - 1\<close>, which is not below the boundary, so the hot
  iterator answers, with its out-of-range error.
\<close>

theorem FullChainIter_boundary_counterexample:
  "HotColdChain_Iter overlap_chain =
     Inr \<lparr>HotIter = mem_Iter ''hot'' 100 hot_entries,
          ColdIter = mem_Iter ''cold'' 98
            (cold_entries @ [mk_entry 100 100 99 False, mk_entry 101 101 100 False])\<rparr> \<and>
   End (mem_Iter ''cold'' 98
          (cold_entries @ [mk_entry 100 100 99 False, mk_entry 101 101 100 False]))
     \<noteq> Start (mem_Iter ''hot'' 100 hot_entries) \<and>
   HotColdChain_Iter genesis_chain =
     Inr \<lparr>HotIter = mem_Iter ''hot'' 0 [mk_entry 0 1 0 False], ColdIter = mem_Iter ''cold'' 0 []\<rparr> \<and>
   End (mem_Iter ''cold'' 0 []) = Start (mem_Iter ''hot'' 0 [mk_entry 0 1 0 False]) \<and>
   End (mem_Iter ''cold'' 0 []) = 0 \<and>
   FullChainIter_Entry
     \<lparr>HotIter = mem_Iter ''hot'' 0 [mk_entry 0 1 0 False], ColdIter = mem_Iter ''cold'' 0 []\<rparr> (0 - 1)
     = (None, Some ''hot: slot out of range'') \<and>
   FullChainIter_Entry
     \<lparr>HotIter = mem_Iter ''hot'' 0 [mk_entry 0 1 0 False], ColdIter = mem_Iter ''cold'' 0 []\<rparr> (0 - 1)
     \<noteq> Entry (mem_Iter ''cold'' 0 []) (0 - 1)"
  by (simp add: HotColdChain_Iter_def FullChainIter_Entry_def overlap_chain_def genesis_chain_def
      mem_defs)

section \<open>HotColdChain.IsAncestor\<close>

text \<open>
  C1: the four-case dispatch of \<open>IsAncestor\<close>, the cases taken in their order:
  (1) equal roots give \<open>(unknown = False, isAncestor = False)\<close>; for different roots,
  (2) if \<open>root\<close> is resolvable by the cold chain's \<open>ByBlockRoot\<close>, the result is the
  cold chain's \<open>IsAncestor root ofRoot\<close>; (3) if \<open>root\<close> is not but \<open>ofRoot\<close> is, the
  result is the hot chain's \<open>IsAncestor\<close> of \<open>root\<close> and the root of the hot chain's
  finalized checkpoint; (4) if neither is, the result is the hot chain's
  \<open>IsAncestor root ofRoot\<close>.
\<close>

theorem HotColdChain_IsAncestor_dispatch:
  "HotColdChain_IsAncestor hc r r = (False, False) \<and>
   (root \<noteq> ofRoot \<and> snd (ByBlockRoot (ColdChain hc) root) = None \<longrightarrow>
      HotColdChain_IsAncestor hc root ofRoot = IsAncestor (ColdChain hc) root ofRoot) \<and>
   (snd (ByBlockRoot (ColdChain hc) root) \<noteq> None \<and> snd (ByBlockRoot (ColdChain hc) ofRoot) = None \<longrightarrow>
      HotColdChain_IsAncestor hc root ofRoot
        = IsAncestor (HotChain hc) root (Checkpoint.Root (Finalized (HotChain hc)))) \<and>
   (root \<noteq> ofRoot \<and> snd (ByBlockRoot (ColdChain hc) root) \<noteq> None \<and>
    snd (ByBlockRoot (ColdChain hc) ofRoot) \<noteq> None \<longrightarrow>
      HotColdChain_IsAncestor hc root ofRoot = IsAncestor (HotChain hc) root ofRoot)"
  by (auto simp add: HotColdChain_IsAncestor_def)

theorem HotColdChain_IsAncestor_dispatch_witness:
  "HotColdChain_IsAncestor example_chain (root_of_byte 101) (root_of_byte 101) = (False, False) \<and>
   (root_of_byte 99 \<noteq> root_of_byte 98 \<and>
    snd (ByBlockRoot (ColdChain example_chain) (root_of_byte 99)) = None \<and>
    HotColdChain_IsAncestor example_chain (root_of_byte 99) (root_of_byte 98) = (False, True)) \<and>
   (snd (ByBlockRoot (ColdChain example_chain) (root_of_byte 103)) \<noteq> None \<and>
    snd (ByBlockRoot (ColdChain example_chain) (root_of_byte 98)) = None \<and>
    HotColdChain_IsAncestor example_chain (root_of_byte 103) (root_of_byte 98) = (False, True)) \<and>
   (root_of_byte 103 \<noteq> root_of_byte 101 \<and>
    snd (ByBlockRoot (ColdChain example_chain) (root_of_byte 103)) \<noteq> None \<and>
    snd (ByBlockRoot (ColdChain example_chain) (root_of_byte 101)) \<noteq> None \<and>
    HotColdChain_IsAncestor example_chain (root_of_byte 103) (root_of_byte 101) = (False, True))"
proof -
  have c99: "snd (ByBlockRoot (ColdChain example_chain) (root_of_byte 99)) = None"
    and c98: "snd (ByBlockRoot (ColdChain example_chain) (root_of_byte 98)) = None"
    and c103: "snd (ByBlockRoot (ColdChain example_chain) (root_of_byte 103)) \<noteq> None"
    and c101: "snd (ByBlockRoot (ColdChain example_chain) (root_of_byte 101)) \<noteq> None"
    and d1: "root_of_byte 99 \<noteq> root_of_byte 98" and d2: "root_of_byte 103 \<noteq> root_of_byte 101"
    by (simp_all add: example_chain_def mem_defs)
  have "HotColdChain_IsAncestor example_chain (root_of_byte 101) (root_of_byte 101) = (False, False)"
    using HotColdChain_IsAncestor_dispatch [of example_chain "root_of_byte 101"] by blast
  moreover have "HotColdChain_IsAncestor example_chain (root_of_byte 99) (root_of_byte 98)
      = IsAncestor (ColdChain example_chain) (root_of_byte 99) (root_of_byte 98)"
    using HotColdChain_IsAncestor_dispatch [of example_chain _ "root_of_byte 99" "root_of_byte 98"]
      d1 c99 by blast
  moreover have "HotColdChain_IsAncestor example_chain (root_of_byte 103) (root_of_byte 98)
      = IsAncestor (HotChain example_chain) (root_of_byte 103)
          (Checkpoint.Root (Finalized (HotChain example_chain)))"
    using HotColdChain_IsAncestor_dispatch [of example_chain _ "root_of_byte 103" "root_of_byte 98"]
      c103 c98 by blast
  moreover have "HotColdChain_IsAncestor example_chain (root_of_byte 103) (root_of_byte 101)
      = IsAncestor (HotChain example_chain) (root_of_byte 103) (root_of_byte 101)"
    using HotColdChain_IsAncestor_dispatch [of example_chain _ "root_of_byte 103" "root_of_byte 101"]
      d2 c103 c101 by blast
  ultimately show ?thesis
    using c99 c98 c103 c101 d1 d2 by (simp add: example_chain_def mem_defs)
qed










section \<open>The router's lookups\<close>

lemma sublist_hot_err:
  "sublist hotErr (''could not find chain entry in hot or cold chain. '' @
     ''Hot: '' @ hotErr @ '', Cold: '' @ coldErr)"
  by (metis append.assoc sublist_appendI)

lemma sublist_cold_err:
  "sublist coldErr (''could not find chain entry in hot or cold chain. '' @
     ''Hot: '' @ hotErr @ '', Cold: '' @ coldErr)"
  by (metis append.assoc append_Nil2 sublist_appendI)

lemma ByStateRoot_hot_then_cold:
  "spec_hot_then_cold (ByStateRoot (HotChain hc) root) (ByStateRoot (ColdChain hc) root)
     (fst (HotColdChain_ByStateRoot hc root))"
  unfolding spec_hot_then_cold_def HotColdChain_ByStateRoot_def
  using sublist_hot_err sublist_cold_err
  by (cases "ByStateRoot (HotChain hc) root"; cases "ByStateRoot (ColdChain hc) root")
     (simp split: option.splits)

lemma ByBlockRoot_hot_then_cold:
  "spec_hot_then_cold (ByBlockRoot (HotChain hc) root) (ByBlockRoot (ColdChain hc) root)
     (fst (HotColdChain_ByBlockRoot hc root))"
  unfolding spec_hot_then_cold_def HotColdChain_ByBlockRoot_def
  using sublist_hot_err sublist_cold_err
  by (cases "ByBlockRoot (HotChain hc) root"; cases "ByBlockRoot (ColdChain hc) root")
     (simp split: option.splits)

lemma Closest_hot_then_cold:
  "spec_hot_then_cold (Closest (HotChain hc) root s) (Closest (ColdChain hc) root s)
     (fst (HotColdChain_Closest hc root s))"
  unfolding spec_hot_then_cold_def HotColdChain_Closest_def
  using sublist_hot_err sublist_cold_err
  by (cases "Closest (HotChain hc) root s"; cases "Closest (ColdChain hc) root s")
     (simp split: option.splits)

lemma BySlot_hot_then_cold:
  "spec_hot_then_cold (BySlot (HotChain hc) s) (BySlot (ColdChain hc) s)
     (fst (HotColdChain_BySlot hc s))"
  unfolding spec_hot_then_cold_def HotColdChain_BySlot_def
  using sublist_hot_err sublist_cold_err
  by (cases "BySlot (HotChain hc) s"; cases "BySlot (ColdChain hc) s")
     (simp split: option.splits)

text \<open>
  C2: each of \<open>ByStateRoot\<close>, \<open>ByBlockRoot\<close>, \<open>Closest\<close> and \<open>BySlot\<close> returns the
  hot entry with no error if the hot lookup succeeds, otherwise the cold entry with
  no error if the cold lookup succeeds, otherwise no entry and one error whose message
  contains both the hot and the cold error message.
\<close>

theorem router_lookups_hot_then_cold:
  "spec_hot_then_cold (ByStateRoot (HotChain hc) root) (ByStateRoot (ColdChain hc) root)
     (fst (HotColdChain_ByStateRoot hc root)) \<and>
   spec_hot_then_cold (ByBlockRoot (HotChain hc) root) (ByBlockRoot (ColdChain hc) root)
     (fst (HotColdChain_ByBlockRoot hc root)) \<and>
   spec_hot_then_cold (Closest (HotChain hc) root s) (Closest (ColdChain hc) root s)
     (fst (HotColdChain_Closest hc root s)) \<and>
   spec_hot_then_cold (BySlot (HotChain hc) s) (BySlot (ColdChain hc) s)
     (fst (HotColdChain_BySlot hc s))"
  by (simp only: ByStateRoot_hot_then_cold ByBlockRoot_hot_then_cold Closest_hot_then_cold
      BySlot_hot_then_cold)

theorem router_lookups_hot_then_cold_witness:
  "fst (HotColdChain_ByStateRoot example_chain (root_of_byte 199))
     = (Some (mk_entry 99 99 98 False), None) \<and>
   fst (HotColdChain_ByBlockRoot example_chain (root_of_byte 199))
     = (None, Some (''could not find chain entry in hot or cold chain. '' @
                    ''Hot: hot: unknown block root, Cold: cold: unknown block root'')) \<and>
   sublist ''hot: unknown block root''
     (''could not find chain entry in hot or cold chain. '' @
      ''Hot: hot: unknown block root, Cold: cold: unknown block root'') \<and>
   sublist ''cold: unknown block root''
     (''could not find chain entry in hot or cold chain. '' @
      ''Hot: hot: unknown block root, Cold: cold: unknown block root'') \<and>
   fst (fst (HotColdChain_Closest example_chain (root_of_byte 199) 103)) = None \<and>
   fst (HotColdChain_BySlot example_chain 103) = (Some (mk_entry 103 103 101 False), None)"
proof -
  let ?r = "root_of_byte 199"
  have hot: "ByStateRoot (HotChain example_chain) ?r = (None, Some ''hot: unknown state root'')"
    "ByBlockRoot (HotChain example_chain) ?r = (None, Some ''hot: unknown block root'')"
    "Closest (HotChain example_chain) ?r 103 = (None, Some ''hot: no entry from this block root'')"
    "BySlot (HotChain example_chain) 103 = (Some (mk_entry 103 103 101 False), None)"
    by (simp_all add: example_chain_def mem_defs)
  have cold: "ByStateRoot (ColdChain example_chain) ?r = (Some (mk_entry 99 99 98 False), None)"
    "ByBlockRoot (ColdChain example_chain) ?r = (None, Some ''cold: unknown block root'')"
    "Closest (ColdChain example_chain) ?r 103 = (None, Some ''cold: no entry from this block root'')"
    by (simp_all add: example_chain_def mem_defs)
  have msg: "snd (fst (HotColdChain_ByBlockRoot example_chain ?r))
      = Some (''could not find chain entry in hot or cold chain. '' @
              ''Hot: hot: unknown block root, Cold: cold: unknown block root'')"
    by (simp add: HotColdChain_ByBlockRoot_def hot cold)
  from router_lookups_hot_then_cold [of example_chain ?r 103] msg show ?thesis
    by (simp add: spec_hot_then_cold_def hot cold prod_eq_iff)
qed

lemma ByStateRoot_hot_priority:
  "spec_hot_priority (ByStateRoot (HotChain hc) root) (HotColdChain_ByStateRoot hc root)"
  unfolding spec_hot_priority_def HotColdChain_ByStateRoot_def
  by (cases "ByStateRoot (HotChain hc) root"; cases "ByStateRoot (ColdChain hc) root")
     (simp split: option.splits)

lemma ByBlockRoot_hot_priority:
  "spec_hot_priority (ByBlockRoot (HotChain hc) root) (HotColdChain_ByBlockRoot hc root)"
  unfolding spec_hot_priority_def HotColdChain_ByBlockRoot_def
  by (cases "ByBlockRoot (HotChain hc) root"; cases "ByBlockRoot (ColdChain hc) root")
     (simp split: option.splits)

lemma Closest_hot_priority:
  "spec_hot_priority (Closest (HotChain hc) root s) (HotColdChain_Closest hc root s)"
  unfolding spec_hot_priority_def HotColdChain_Closest_def
  by (cases "Closest (HotChain hc) root s"; cases "Closest (ColdChain hc) root s")
     (simp split: option.splits)

lemma BySlot_hot_priority:
  "spec_hot_priority (BySlot (HotChain hc) s) (HotColdChain_BySlot hc s)"
  unfolding spec_hot_priority_def HotColdChain_BySlot_def
  by (cases "BySlot (HotChain hc) s"; cases "BySlot (ColdChain hc) s")
     (simp split: option.splits)

text \<open>
  C9: for each of \<open>ByStateRoot\<close>, \<open>ByBlockRoot\<close>, \<open>Closest\<close> and \<open>BySlot\<close>, when the
  hot lookup succeeds the router returns exactly the hot entry and has queried the hot
  region only; the cold region is queried, and so a cold entry returned, only if the
  hot lookup failed. So an entry held by both regions is served from the hot region.
\<close>

theorem router_lookups_hot_priority:
  "spec_hot_priority (ByStateRoot (HotChain hc) root) (HotColdChain_ByStateRoot hc root) \<and>
   spec_hot_priority (ByBlockRoot (HotChain hc) root) (HotColdChain_ByBlockRoot hc root) \<and>
   spec_hot_priority (Closest (HotChain hc) root s) (HotColdChain_Closest hc root s) \<and>
   spec_hot_priority (BySlot (HotChain hc) s) (HotColdChain_BySlot hc s)"
  by (simp only: ByStateRoot_hot_priority ByBlockRoot_hot_priority Closest_hot_priority
      BySlot_hot_priority)

theorem router_lookups_hot_priority_witness:
  "snd (ByBlockRoot (HotChain overlap_chain) (root_of_byte 101)) = None \<and>
   snd (ByBlockRoot (ColdChain overlap_chain) (root_of_byte 101)) = None \<and>
   HotColdChain_ByBlockRoot overlap_chain (root_of_byte 101)
     = ((Some (mk_entry 101 101 100 False), None), [Hot]) \<and>
   Cold \<in> set (snd (HotColdChain_BySlot overlap_chain 99)) \<and>
   snd (BySlot (HotChain overlap_chain) 99) = Some ''hot: no entry at this slot''"
proof -
  have hot: "ByBlockRoot (HotChain overlap_chain) (root_of_byte 101)
      = (Some (mk_entry 101 101 100 False), None)"
    and cold: "snd (ByBlockRoot (ColdChain overlap_chain) (root_of_byte 101)) = None"
    and hot_slot: "BySlot (HotChain overlap_chain) 99 = (None, Some ''hot: no entry at this slot'')"
    by (simp_all add: overlap_chain_def mem_defs)
  have queried: "Cold \<in> set (snd (HotColdChain_BySlot overlap_chain 99))"
    by (simp add: HotColdChain_BySlot_def hot_slot split: prod.splits option.splits)
  from router_lookups_hot_priority [of overlap_chain "root_of_byte 101" 99] cold queried
  show ?thesis
    by (simp add: spec_hot_priority_def hot hot_slot)
qed

section \<open>The finalization sink\<close>

text \<open>
  C8: the sink that \<open>NewHotColdChain\<close> hands to the hot chain forwards an entry to the
  cold chain's \<open>OnFinalizedEntry\<close> only when \<open>canonical\<close> is true; for every entry
  with \<open>canonical\<close> false it returns no error and leaves the cold chain as it was.
\<close>

theorem NewHotColdChain_sink_canonical_only:
  "NewHotColdChain_sink OnFinalizedEntry entry True coldCh = OnFinalizedEntry entry coldCh \<and>
   NewHotColdChain_sink OnFinalizedEntry entry False coldCh = (None, coldCh) \<and>
   (\<exists>hc. NewHotColdChain NewFinalizedChain mem_NewUnfinalizedChain OnFinalizedEntry
            anchor spec stateDB = (Some hc, None) \<and>
         snd (HotChain hc) = NewHotColdChain_sink OnFinalizedEntry)"
  by (simp add: NewHotColdChain_def NewHotColdChain_sink_def mem_NewUnfinalizedChain_def)

theorem NewHotColdChain_sink_canonical_only_witness:
  "NewHotColdChain_sink mem_OnFinalizedEntry \<lparr>slot = 101, blockRoot = root_of_byte 101\<rparr> True
     [\<lparr>slot = 100, blockRoot = root_of_byte 100\<rparr>]
     = (None, [\<lparr>slot = 100, blockRoot = root_of_byte 100\<rparr>,
               \<lparr>slot = 101, blockRoot = root_of_byte 101\<rparr>]) \<and>
   NewHotColdChain_sink mem_OnFinalizedEntry \<lparr>slot = 101, blockRoot = root_of_byte 102\<rparr> False
     [\<lparr>slot = 100, blockRoot = root_of_byte 100\<rparr>]
     = (None, [\<lparr>slot = 100, blockRoot = root_of_byte 100\<rparr>]) \<and>
   NewHotColdChain_sink mem_OnFinalizedEntry \<lparr>slot = 100, blockRoot = root_of_byte 100\<rparr> True
     [\<lparr>slot = 100, blockRoot = root_of_byte 100\<rparr>]
     = (Some ''cold: entry out of order'', [\<lparr>slot = 100, blockRoot = root_of_byte 100\<rparr>]) \<and>
   NewHotColdChain mem_NewFinalizedChain mem_NewUnfinalizedChain mem_OnFinalizedEntry
     \<lparr>slot = 100, blockRoot = root_of_byte 100\<rparr> () ()
     = (Some \<lparr>HotChain = (\<lparr>slot = 100, blockRoot = root_of_byte 100\<rparr>,
                           NewHotColdChain_sink mem_OnFinalizedEntry),
              ColdChain = [], Spec = ()\<rparr>, None)"
proof -
  let ?e100 = "\<lparr>slot = 100, blockRoot = root_of_byte 100\<rparr>"
  let ?e101 = "\<lparr>slot = 101, blockRoot = root_of_byte 101\<rparr>"
  let ?f101 = "\<lparr>slot = 101, blockRoot = root_of_byte 102\<rparr>"
  have "NewHotColdChain_sink mem_OnFinalizedEntry ?e101 True [?e100]
      = mem_OnFinalizedEntry ?e101 [?e100]"
    by (rule NewHotColdChain_sink_canonical_only [THEN conjunct1])
  moreover have "NewHotColdChain_sink mem_OnFinalizedEntry ?f101 False [?e100] = (None, [?e100])"
    by (rule NewHotColdChain_sink_canonical_only [THEN conjunct2, THEN conjunct1])
  moreover have "NewHotColdChain_sink mem_OnFinalizedEntry ?e100 True [?e100]
      = mem_OnFinalizedEntry ?e100 [?e100]"
    by (rule NewHotColdChain_sink_canonical_only [THEN conjunct1])
  ultimately show ?thesis
    by (simp add: mem_OnFinalizedEntry_def NewHotColdChain_def mem_NewFinalizedChain_def
        mem_NewUnfinalizedChain_def)
qed

section \<open>HotColdChain.Towards\<close>

text \<open>
  C6 asks for an error when \<open>toSlot\<close> is below the slot of the entry of
  \<open>fromBlockRoot\<close>. In the example chain block B, of root \<open>root_of_byte 103\<close>, is
  known at slot 103; \<open>Towards\<close> from B to slot 101 produces no result pair, and so no
  error.
\<close>

theorem HotColdChain_Towards_backward_no_error:
  "fst (HotColdChain_ByBlockRoot example_chain (root_of_byte 103))
     = (Some (mk_entry 103 103 101 False), None) \<and>
   (101 :: Slot) < ChainEntry.Slot (mk_entry 103 103 101 False) \<and>
   HotColdChain_Towards example_chain () (root_of_byte 103) 101 = None"
  by (simp add: HotColdChain_Towards_def HotColdChain_ByBlockRoot_def example_chain_def mem_defs)

end
